theory Spec2Isabelle
  imports Main
begin

section \<open>Values at the engine boundaries\<close>

text \<open>
  Strings are byte lists; the accented letters of the Portuguese messages are written as
  their UTF-8 bytes. A value caught by a \<^verbatim>\<open>catch\<close> clause is one of four kinds:
  \<^item> \<open>ErrorInstance m\<close>: an instance of \<^verbatim>\<open>Error\<close> whose \<^verbatim>\<open>message\<close> prints as \<open>m\<close>;
  \<^item> \<open>OtherThrown s\<close>: another value, for which \<^verbatim>\<open>String(e)\<close> returns \<open>s\<close>;
  \<^item> \<open>ErrorMessageRaising x\<close>: an instance of \<^verbatim>\<open>Error\<close> whose \<^verbatim>\<open>message\<close> cannot be
    printed: converting it to a string raises \<open>x\<close> (a symbol, an object whose
    \<^verbatim>\<open>toString\<close> throws);
  \<^item> \<open>OtherRaising x\<close>: another value for which \<^verbatim>\<open>String(e)\<close> itself raises \<open>x\<close>
    (\<^verbatim>\<open>Object.create(null)\<close>, with \<open>x\<close> a \<^verbatim>\<open>TypeError\<close>).
\<close>

datatype js_thrown =
  ErrorInstance string | OtherThrown string
  | ErrorMessageRaising js_thrown | OtherRaising js_thrown

text \<open>
  The value of the variable \<^verbatim>\<open>errorMsg\<close>: one that a template literal prints as the
  given text, or one whose printing raises.
\<close>

datatype js_message = Text string | Unprintable js_thrown

text \<open>
  \<^verbatim>\<open>(e instanceof Error) ? e.message : String(e)\<close>: reading \<^verbatim>\<open>message\<close> never raises;
  \<^verbatim>\<open>String(e)\<close> may. \<open>Inl\<close> is the exception raised.
\<close>

definition errorMsg :: "js_thrown \<Rightarrow> js_thrown + js_message" where
  "errorMsg e =
     (case e of
        ErrorInstance message \<Rightarrow> Inr (Text message)
      | ErrorMessageRaising x \<Rightarrow> Inr (Unprintable x)
      | OtherThrown s \<Rightarrow> Inr (Text s)
      | OtherRaising x \<Rightarrow> Inl x)"

text \<open>The interpolation \<^verbatim>\<open>${errorMsg}\<close> of a template literal.\<close>

definition interpolate :: "js_message \<Rightarrow> js_thrown + string" where
  "interpolate v = (case v of Text s \<Rightarrow> Inr s | Unprintable x \<Rightarrow> Inl x)"

text \<open>A line written by \<^verbatim>\<open>console.error(label, e)\<close>.\<close>

type_synonym console_entry = "string \<times> js_thrown"

section \<open>KaTeXRenderer\<close>

text \<open>
  The math engine \<^verbatim>\<open>window.katex.render(math, node, {displayMode, throwOnError})\<close> is
  not part of the repository; it is a parameter. It receives the expression, the target
  node (\<open>None\<close> for \<^verbatim>\<open>null\<close>, otherwise the node's current \<^verbatim>\<open>innerHTML\<close>) and
  the two options, and either returns or throws; in both cases it says what it left in
  the node.
\<close>

datatype katex_outcome = Rendered string | Raised js_thrown string

type_synonym katex = "string \<Rightarrow> string option \<Rightarrow> bool \<Rightarrow> bool \<Rightarrow> katex_outcome"

record KaTeXRendererProps =
  math :: string
  displayMode :: "bool option"

text \<open>
  What the effect of one renderer can touch: \<^verbatim>\<open>ref.current\<close> and the console.
  \<open>ref_current\<close> is \<open>None\<close> while the span is not attached; otherwise it holds the markup
  last written into the span, as written (what the engine left, or the string assigned
  to \<^verbatim>\<open>innerHTML\<close>), not as a browser would parse and print it again.
\<close>

record KaTeX_world =
  ref_current :: "string option"
  console :: "console_entry list"

text \<open>The default of the destructured parameter: \<^verbatim>\<open>displayMode = false\<close>.\<close>

definition displayMode_of :: "KaTeXRendererProps \<Rightarrow> bool" where
  "displayMode_of p = (case displayMode p of None \<Rightarrow> False | Some b \<Rightarrow> b)"

text \<open>
  The markup of the catch clause:
  \<^verbatim>\<open><span style="color: red;">Erro de renderizacao matematica: ${errorMsg}</span>\<close>
  (with the cedilla, the tilde and the acute accent of the original).
\<close>

definition katex_error_html :: "string \<Rightarrow> string" where
  "katex_error_html msg =
     ''<span style='' @ [CHR 0x22] @ ''color: red;'' @ [CHR 0x22] @ ''>'' @
     ''Erro de renderiza'' @ [CHR 0xC3, CHR 0xA7, CHR 0xC3, CHR 0xA3] @ ''o matem'' @
     [CHR 0xC3, CHR 0xA1] @ ''tica: '' @ msg @ ''</span>''"

text \<open>Writing \<^verbatim>\<open>innerHTML\<close> of a node that is attached; the node stays the same node.\<close>

definition set_innerHTML :: "string \<Rightarrow> KaTeX_world \<Rightarrow> KaTeX_world" where
  "set_innerHTML html w = w\<lparr>ref_current := map_option (\<lambda>_. html) (ref_current w)\<rparr>"

text \<open>
  The statement inside \<^verbatim>\<open>try\<close>: the call of the engine on \<^verbatim>\<open>ref.current\<close>, with
  \<^verbatim>\<open>throwOnError: false\<close>. \<open>Inl\<close> is the exception on its way to the catch clause,
  together with the world the engine left.
\<close>

definition katex_render_call ::
  "katex \<Rightarrow> string \<Rightarrow> bool \<Rightarrow> KaTeX_world \<Rightarrow> (js_thrown \<times> KaTeX_world) + KaTeX_world" where
  "katex_render_call k m d w =
     (case k m (ref_current w) d False of
        Rendered html \<Rightarrow> Inr (set_innerHTML html w)
      | Raised e html \<Rightarrow> Inl (e, set_innerHTML html w))"

text \<open>
  The catch clause of \<^verbatim>\<open>src/metodos_de_prova/src/App.tsx\<close>: log, compute
  \<^verbatim>\<open>errorMsg\<close>, and, if \<^verbatim>\<open>ref.current\<close> is still there, build the markup and assign
  it. Nothing encloses the clause, so an exception raised while computing or printing the
  message leaves it: \<open>Inl\<close>, with the world as it is by then.
\<close>

definition katex_catch ::
  "js_thrown \<Rightarrow> KaTeX_world \<Rightarrow> (js_thrown \<times> KaTeX_world) + KaTeX_world" where
  "katex_catch e w =
     (let w1 = w\<lparr>console := console w @ [(''KaTeX rendering error:'', e)]\<rparr>
      in case errorMsg e of
           Inl x \<Rightarrow> Inl (x, w1)
         | Inr msg \<Rightarrow>
             if ref_current w1 \<noteq> None then
               (case interpolate msg of
                  Inl x \<Rightarrow> Inl (x, w1)
                | Inr s \<Rightarrow> Inr (set_innerHTML (katex_error_html s) w1))
             else Inr w1)"

text \<open>
  The catch clause of \<^verbatim>\<open>src/unnamed/part_000\<close> computes \<^verbatim>\<open>errorMsg\<close> inside the
  check of \<^verbatim>\<open>ref.current\<close>.
\<close>

definition katex_catch_part000 ::
  "js_thrown \<Rightarrow> KaTeX_world \<Rightarrow> (js_thrown \<times> KaTeX_world) + KaTeX_world" where
  "katex_catch_part000 e w =
     (let w1 = w\<lparr>console := console w @ [(''KaTeX rendering error:'', e)]\<rparr>
      in if ref_current w1 \<noteq> None then
           (case errorMsg e of
              Inl x \<Rightarrow> Inl (x, w1)
            | Inr msg \<Rightarrow>
                (case interpolate msg of
                   Inl x \<Rightarrow> Inl (x, w1)
                 | Inr s \<Rightarrow> Inr (set_innerHTML (katex_error_html s) w1)))
         else Inr w1)"

text \<open>
  The body of the effect of \<^verbatim>\<open>src/metodos_de_prova/src/App.tsx\<close>, guarded by
  \<^verbatim>\<open>window.katex && ref.current\<close>. \<open>Inl\<close> is an exception leaving the effect.
\<close>

definition KaTeXRenderer_effect ::
  "katex option \<Rightarrow> KaTeXRendererProps \<Rightarrow> KaTeX_world
     \<Rightarrow> (js_thrown \<times> KaTeX_world) + KaTeX_world" where
  "KaTeXRenderer_effect window_katex p w =
     (case window_katex of
        None \<Rightarrow> Inr w
      | Some k \<Rightarrow>
          if ref_current w \<noteq> None then
            (case katex_render_call k (math p) (displayMode_of p) w of
               Inr w' \<Rightarrow> Inr w'
             | Inl (e, w') \<Rightarrow> katex_catch e w')
          else Inr w)"

text \<open>
  The earlier copy of the component (\<^verbatim>\<open>src/unnamed/part_000\<close>) guards the call by
  \<^verbatim>\<open>window.katex\<close> alone, so the engine may be handed a \<^verbatim>\<open>null\<close> node.
\<close>

definition KaTeXRenderer_effect_part000 ::
  "katex option \<Rightarrow> KaTeXRendererProps \<Rightarrow> KaTeX_world
     \<Rightarrow> (js_thrown \<times> KaTeX_world) + KaTeX_world" where
  "KaTeXRenderer_effect_part000 window_katex p w =
     (case window_katex of
        None \<Rightarrow> Inr w
      | Some k \<Rightarrow>
          (case katex_render_call k (math p) (displayMode_of p) w of
             Inr w' \<Rightarrow> Inr w'
           | Inl (e, w') \<Rightarrow> katex_catch_part000 e w'))"

text \<open>
  One mounted renderer: its world and the dependency values \<^verbatim>\<open>[math, displayMode]\<close> of
  the last run of the effect (\<open>None\<close> before the first run). A render of the component
  runs the effect only when the dependencies differ from those of the last run.
\<close>

record KaTeXRenderer_instance =
  world :: KaTeX_world
  last_deps :: "(string \<times> bool) option"

definition KaTeXRenderer_render ::
  "katex option \<Rightarrow> KaTeXRendererProps \<Rightarrow> KaTeXRenderer_instance
     \<Rightarrow> (js_thrown \<times> KaTeX_world) + KaTeXRenderer_instance" where
  "KaTeXRenderer_render window_katex p i =
     (if last_deps i = Some (math p, displayMode_of p) then Inr i
      else (case KaTeXRenderer_effect window_katex p (world i) of
              Inl e \<Rightarrow> Inl e
            | Inr w' \<Rightarrow> Inr (i\<lparr>world := w', last_deps := Some (math p, displayMode_of p)\<rparr>)))"

text \<open>\<open>n\<close> renders in a row with the same props; an exception would end the row.\<close>

fun KaTeXRenderer_renders ::
  "nat \<Rightarrow> katex option \<Rightarrow> KaTeXRendererProps \<Rightarrow> KaTeXRenderer_instance
     \<Rightarrow> (js_thrown \<times> KaTeX_world) + KaTeXRenderer_instance" where
  "KaTeXRenderer_renders 0 window_katex p i = Inr i"
| "KaTeXRenderer_renders (Suc n) window_katex p i =
     (case KaTeXRenderer_render window_katex p i of
        Inl e \<Rightarrow> Inl e
      | Inr i' \<Rightarrow> KaTeXRenderer_renders n window_katex p i')"

text \<open>\<open>n\<close> runs of the effect itself on the same node (as when the span is remounted).\<close>

fun KaTeXRenderer_effects ::
  "nat \<Rightarrow> katex option \<Rightarrow> KaTeXRendererProps \<Rightarrow> KaTeX_world
     \<Rightarrow> (js_thrown \<times> KaTeX_world) + KaTeX_world" where
  "KaTeXRenderer_effects 0 window_katex p w = Inr w"
| "KaTeXRenderer_effects (Suc n) window_katex p w =
     (case KaTeXRenderer_effect window_katex p w of
        Inl e \<Rightarrow> Inl e
      | Inr w' \<Rightarrow> KaTeXRenderer_effects n window_katex p w')"

text \<open>The content of the target after a run, when the run returned.\<close>

definition content_after :: "(js_thrown \<times> KaTeX_world) + KaTeX_world \<Rightarrow> string option option" where
  "content_after r = (case r of Inl e \<Rightarrow> None | Inr w \<Rightarrow> Some (ref_current w))"

text \<open>An engine that overwrites its target: what it leaves does not depend on what was there.\<close>

definition overwrites :: "katex \<Rightarrow> string \<Rightarrow> bool \<Rightarrow> bool" where
  "overwrites k m d = (\<forall>c c'. k m (Some c) d False = k m (Some c') d False)"

section \<open>MermaidDiagram\<close>

text \<open>
  The diagram engine \<^verbatim>\<open>window.mermaid.render(id, chart)\<close> is not part of the
  repository; it is a parameter. Its promise either rejects (\<open>Inl\<close>) or resolves with the
  markup (\<open>Inr\<close>).
\<close>

type_synonym mermaid = "string \<Rightarrow> string \<Rightarrow> js_thrown + string"

text \<open>
  A render job in flight: the identifier and the source handed to the engine, and what
  its promise will settle with.
\<close>

record job =
  job_id :: string
  job_source :: string
  job_result :: "js_thrown + string"

definition issue :: "mermaid \<Rightarrow> string \<Rightarrow> string \<Rightarrow> job" where
  "issue m ident src = \<lparr>job_id = ident, job_source = src, job_result = m ident src\<rparr>"

record MermaidDiagramProps =
  chart :: string
  isMermaidLoaded :: bool

text \<open>The two \<^verbatim>\<open>useState<string | null>(null)\<close> cells.\<close>

record MermaidDiagram_state =
  renderError :: "string option"
  diagramSvg :: "string option"

text \<open>Truthiness of a \<^verbatim>\<open>string | null\<close>: \<^verbatim>\<open>null\<close> and the empty string are falsy.\<close>

definition truthy :: "string option \<Rightarrow> bool" where
  "truthy v = (case v of None \<Rightarrow> False | Some s \<Rightarrow> s \<noteq> [])"

text \<open>
  What the component returns: the red paragraph with the error, the \<^verbatim>\<open>div\<close> that
  carries \<^verbatim>\<open>mermaidRef\<close> and the markup, or the grey paragraph
  \<^verbatim>\<open>Carregando diagrama...\<close>.
\<close>

datatype MermaidDiagram_jsx = ErrorParagraph string | SvgDiv string | WaitingParagraph

definition MermaidDiagram_return :: "MermaidDiagram_state \<Rightarrow> MermaidDiagram_jsx" where
  "MermaidDiagram_return s =
     (case renderError s of
        Some e \<Rightarrow>
          if e \<noteq> [] then ErrorParagraph e
          else (case diagramSvg s of
                  Some v \<Rightarrow> if v \<noteq> [] then SvgDiv v else WaitingParagraph
                | None \<Rightarrow> WaitingParagraph)
      | None \<Rightarrow>
          (case diagramSvg s of
             Some v \<Rightarrow> if v \<noteq> [] then SvgDiv v else WaitingParagraph
           | None \<Rightarrow> WaitingParagraph))"

text \<open>
  \<^verbatim>\<open>mermaidRef\<close> is attached to the \<^verbatim>\<open>div\<close> of the second branch only, so after a
  commit \<^verbatim>\<open>mermaidRef.current\<close> is a node exactly when that branch was returned.
\<close>

definition mermaidRef_current :: "MermaidDiagram_state \<Rightarrow> bool" where
  "mermaidRef_current s = (case MermaidDiagram_return s of SvgDiv v \<Rightarrow> True | _ \<Rightarrow> False)"

text \<open>The decimal digits of a non-negative integer, as a template literal prints it.\<close>

definition digit_char :: "nat \<Rightarrow> char" where
  "digit_char n = ''0123456789'' ! n"

fun decimal :: "nat \<Rightarrow> string" where
  "decimal n = (if n < 10 then [digit_char n] else decimal (n div 10) @ [digit_char (n mod 10)])"

declare decimal.simps [simp del]

text \<open>
  \<^verbatim>\<open>`mermaid-chart-${Date.now()}-${Math.random().toString(36).substr(2, 9)}`\<close>: the
  clock reading \<open>now\<close> (milliseconds) and the value \<open>rnd\<close> of the random expression are
  inputs.
\<close>

definition uniqueId :: "nat \<Rightarrow> string \<Rightarrow> string" where
  "uniqueId now rnd = ''mermaid-chart-'' @ decimal now @ ''-'' @ rnd"

text \<open>
  The body of the effect of \<^verbatim>\<open>src/metodos_de_prova/src/App.tsx\<close>: the new state cells
  and the jobs it started (at most one).
\<close>

definition MermaidDiagram_effect ::
  "mermaid option \<Rightarrow> bool \<Rightarrow> nat \<Rightarrow> string \<Rightarrow> MermaidDiagramProps \<Rightarrow> MermaidDiagram_state
     \<Rightarrow> MermaidDiagram_state \<times> job list" where
  "MermaidDiagram_effect window_mermaid ref_attached now rnd p s =
     (if isMermaidLoaded p \<and> window_mermaid \<noteq> None \<and> ref_attached \<and> chart p \<noteq> [] then
        (case window_mermaid of
           Some m \<Rightarrow> (s\<lparr>renderError := None, diagramSvg := None\<rparr>,
                      [issue m (uniqueId now rnd) (chart p)])
         | None \<Rightarrow> (s, []))
      else if \<not> isMermaidLoaded p then (s\<lparr>renderError := None, diagramSvg := None\<rparr>, [])
      else if chart p = [] then
        (s\<lparr>renderError := Some ''Nenhum diagrama Mermaid fornecido.'', diagramSvg := None\<rparr>, [])
      else (s, []))"

text \<open>The two handlers attached to the promise.\<close>

definition then_handler :: "string \<Rightarrow> MermaidDiagram_state \<Rightarrow> MermaidDiagram_state" where
  "then_handler v s = s\<lparr>diagramSvg := Some v\<rparr>"

definition catch_handler :: "MermaidDiagram_state \<Rightarrow> MermaidDiagram_state" where
  "catch_handler s = s\<lparr>renderError := Some ''Erro ao renderizar diagrama.''\<rparr>"

text \<open>
  One mounted diagram: the state cells, the dependency values \<^verbatim>\<open>[chart, isMermaidLoaded]\<close>
  of the last run of the effect, the jobs in flight and the console.
\<close>

record MermaidDiagram_instance =
  hooks :: MermaidDiagram_state
  deps :: "(string \<times> bool) option"
  pending :: "job list"
  log :: "console_entry list"

record render_env =
  window_mermaid :: "mermaid option"
  clock :: nat
  random36 :: string

datatype MermaidDiagram_event = Render render_env MermaidDiagramProps | Settle nat

definition MermaidDiagram_initial :: MermaidDiagram_instance where
  "MermaidDiagram_initial =
     \<lparr>hooks = \<lparr>renderError = None, diagramSvg = None\<rparr>, deps = None, pending = [], log = []\<rparr>"

text \<open>
  A render with props \<open>p\<close>: the effect runs when the dependencies changed, after the commit
  of what the component returned for the state cells it had.
\<close>

definition MermaidDiagram_render ::
  "render_env \<Rightarrow> MermaidDiagramProps \<Rightarrow> MermaidDiagram_instance \<Rightarrow> MermaidDiagram_instance" where
  "MermaidDiagram_render env p i =
     (if deps i = Some (chart p, isMermaidLoaded p) then i
      else (case MermaidDiagram_effect (window_mermaid env) (mermaidRef_current (hooks i))
                   (clock env) (random36 env) p (hooks i) of
              (s', js) \<Rightarrow>
                i\<lparr>hooks := s', deps := Some (chart p, isMermaidLoaded p), pending := pending i @ js\<rparr>))"

text \<open>The promise of the \<open>n\<close>-th job in flight settles and its handler runs.\<close>

definition MermaidDiagram_settle :: "nat \<Rightarrow> MermaidDiagram_instance \<Rightarrow> MermaidDiagram_instance" where
  "MermaidDiagram_settle n i =
     (if n < length (pending i) then
        (case job_result (pending i ! n) of
           Inr v \<Rightarrow> i\<lparr>hooks := then_handler v (hooks i),
                      pending := take n (pending i) @ drop (Suc n) (pending i)\<rparr>
         | Inl e \<Rightarrow> i\<lparr>hooks := catch_handler (hooks i),
                      log := log i @ [(''Mermaid rendering error:'', e)],
                      pending := take n (pending i) @ drop (Suc n) (pending i)\<rparr>)
      else i)"

fun MermaidDiagram_step :: "MermaidDiagram_instance \<Rightarrow> MermaidDiagram_event \<Rightarrow> MermaidDiagram_instance" where
  "MermaidDiagram_step i (Render env p) = MermaidDiagram_render env p i"
| "MermaidDiagram_step i (Settle n) = MermaidDiagram_settle n i"

definition MermaidDiagram_run ::
  "MermaidDiagram_event list \<Rightarrow> MermaidDiagram_instance \<Rightarrow> MermaidDiagram_instance" where
  "MermaidDiagram_run evs i = foldl MermaidDiagram_step i evs"

text \<open>
  At most one job is in flight, and while it is, no markup is stored and the stored error,
  if any, is the one for an empty chart.
\<close>

definition one_attempt_at_a_time :: "MermaidDiagram_instance \<Rightarrow> bool" where
  "one_attempt_at_a_time i =
     (pending i = [] \<or>
      (length (pending i) = 1 \<and> diagramSvg (hooks i) = None \<and>
       renderError (hooks i) \<in> {None, Some ''Nenhum diagrama Mermaid fornecido.''}))"


subsection \<open>The earlier copy of MermaidDiagram\<close>

text \<open>
  \<^verbatim>\<open>src/unnamed/part_000\<close> holds an earlier copy of the component: one state cell for the
  markup, one for the readiness of the engine, two effects, and the fixed identifier
  \<^verbatim>\<open>'mermaid-svg'\<close>.
\<close>

record MermaidDiagram_state_part000 =
  svg :: string
  mermaidReady :: bool


text \<open>The first effect, with dependencies \<^verbatim>\<open>[mermaidReady]\<close>.\<close>

definition ready_effect_part000 ::
  "mermaid option \<Rightarrow> MermaidDiagram_state_part000 \<Rightarrow> MermaidDiagram_state_part000" where
  "ready_effect_part000 wm s =
     (if wm \<noteq> None \<and> \<not> mermaidReady s then s\<lparr>mermaidReady := True\<rparr> else s)"

text \<open>
  The second effect, with dependencies \<^verbatim>\<open>[chart, mermaidReady]\<close>. It reads
  \<^verbatim>\<open>window.mermaid.render\<close> without a check, which raises a \<^verbatim>\<open>TypeError\<close> when the
  global is undefined.
\<close>

definition render_effect_part000 ::
  "mermaid option \<Rightarrow> string \<Rightarrow> MermaidDiagram_state_part000 \<Rightarrow> js_thrown + job list" where
  "render_effect_part000 wm c s =
     (if c \<noteq> [] \<and> mermaidReady s then
        (case wm of
           Some m \<Rightarrow> Inr [issue m ''mermaid-svg'' c]
         | None \<Rightarrow> Inl (ErrorInstance ''TypeError''))
      else Inr [])"

definition then_handler_part000 ::
  "string \<Rightarrow> MermaidDiagram_state_part000 \<Rightarrow> MermaidDiagram_state_part000" where
  "then_handler_part000 v s = s\<lparr>svg := v\<rparr>"

definition catch_handler_part000 :: "MermaidDiagram_state_part000 \<Rightarrow> MermaidDiagram_state_part000" where
  "catch_handler_part000 s =
     s\<lparr>svg := ''<p style='' @ [CHR 0x22] @ ''color: red;'' @ [CHR 0x22] @
               ''>Erro ao renderizar diagrama.</p>''\<rparr>"

record MermaidDiagram_instance_part000 =
  hooks_part000 :: MermaidDiagram_state_part000
  ready_deps :: "bool option"
  render_deps :: "(string \<times> bool) option"
  pending_part000 :: "job list"
  log_part000 :: "console_entry list"

definition MermaidDiagram_initial_part000 :: MermaidDiagram_instance_part000 where
  "MermaidDiagram_initial_part000 =
     \<lparr>hooks_part000 = \<lparr>svg = [], mermaidReady = False\<rparr>, ready_deps = None, render_deps = None,
      pending_part000 = [], log_part000 = []\<rparr>"

text \<open>
  One pass: both effects see the state cells of this render; each runs when its
  dependencies changed. \<open>Inl\<close> is an exception leaving an effect.
\<close>

definition MermaidDiagram_pass_part000 ::
  "mermaid option \<Rightarrow> string \<Rightarrow> MermaidDiagram_instance_part000
     \<Rightarrow> js_thrown + MermaidDiagram_instance_part000" where
  "MermaidDiagram_pass_part000 wm c i =
     (let s = hooks_part000 i;
          s' = (if ready_deps i = Some (mermaidReady s) then s else ready_effect_part000 wm s)
      in case (if render_deps i = Some (c, mermaidReady s) then Inr []
               else render_effect_part000 wm c s) of
           Inl e \<Rightarrow> Inl e
         | Inr js \<Rightarrow>
             Inr (i\<lparr>hooks_part000 := s', ready_deps := Some (mermaidReady s),
                    render_deps := Some (c, mermaidReady s),
                    pending_part000 := pending_part000 i @ js\<rparr>))"

text \<open>
  A render with chart \<open>c\<close>: a pass, and one more when the first pass changed
  \<^verbatim>\<open>mermaidReady\<close> (the second cannot change it again).
\<close>

definition MermaidDiagram_render_part000 ::
  "mermaid option \<Rightarrow> string \<Rightarrow> MermaidDiagram_instance_part000
     \<Rightarrow> js_thrown + MermaidDiagram_instance_part000" where
  "MermaidDiagram_render_part000 wm c i =
     (case MermaidDiagram_pass_part000 wm c i of
        Inl e \<Rightarrow> Inl e
      | Inr i1 \<Rightarrow>
          if mermaidReady (hooks_part000 i1) \<noteq> mermaidReady (hooks_part000 i)
          then MermaidDiagram_pass_part000 wm c i1 else Inr i1)"

definition MermaidDiagram_settle_part000 ::
  "nat \<Rightarrow> MermaidDiagram_instance_part000 \<Rightarrow> MermaidDiagram_instance_part000" where
  "MermaidDiagram_settle_part000 n i =
     (if n < length (pending_part000 i) then
        (case job_result (pending_part000 i ! n) of
           Inr v \<Rightarrow> i\<lparr>hooks_part000 := then_handler_part000 v (hooks_part000 i),
                      pending_part000 := take n (pending_part000 i) @ drop (Suc n) (pending_part000 i)\<rparr>
         | Inl e \<Rightarrow> i\<lparr>hooks_part000 := catch_handler_part000 (hooks_part000 i),
                      log_part000 := log_part000 i @ [(''Mermaid rendering error:'', e)],
                      pending_part000 := take n (pending_part000 i) @ drop (Suc n) (pending_part000 i)\<rparr>)
      else i)"

datatype MermaidDiagram_event_part000 = Render_part000 "mermaid option" string | Settle_part000 nat

fun MermaidDiagram_run_part000 ::
  "MermaidDiagram_event_part000 list \<Rightarrow> MermaidDiagram_instance_part000
     \<Rightarrow> js_thrown + MermaidDiagram_instance_part000" where
  "MermaidDiagram_run_part000 [] i = Inr i"
| "MermaidDiagram_run_part000 (Render_part000 wm c # evs) i =
     (case MermaidDiagram_render_part000 wm c i of
        Inl e \<Rightarrow> Inl e
      | Inr i' \<Rightarrow> MermaidDiagram_run_part000 evs i')"
| "MermaidDiagram_run_part000 (Settle_part000 n # evs) i =
     MermaidDiagram_run_part000 evs (MermaidDiagram_settle_part000 n i)"

section \<open>App\<close>

subsection \<open>The document\<close>

text \<open>
  A node has an identity (the number of its creation) and the attributes the loader sets.
  The document is the list of children of \<^verbatim>\<open>head\<close>, the list of children of
  \<^verbatim>\<open>body\<close>, and the number of nodes created so far.
\<close>

record element =
  node :: nat
  tagName :: string
  rel :: string
  href :: string
  src :: string

record document =
  head_children :: "element list"
  body_children :: "element list"
  created :: nat

definition createElement :: "string \<Rightarrow> document \<Rightarrow> element \<times> document" where
  "createElement t d =
     (\<lparr>node = created d, tagName = t, rel = [], href = [], src = []\<rparr>,
      d\<lparr>created := Suc (created d)\<rparr>)"

definition appendChild :: "element list \<Rightarrow> element \<Rightarrow> element list" where
  "appendChild xs e = xs @ [e]"

definition contains :: "element list \<Rightarrow> element \<Rightarrow> bool" where
  "contains xs e = (node e \<in> set (map node xs))"

text \<open>\<^verbatim>\<open>removeChild\<close> raises \<^verbatim>\<open>NotFoundError\<close> when the node is not a child.\<close>

definition removeChild :: "element list \<Rightarrow> element \<Rightarrow> js_thrown + element list" where
  "removeChild xs e =
     (if contains xs e then Inr (filter (\<lambda>x. node x \<noteq> node e) xs)
      else Inl (ErrorInstance ''NotFoundError''))"

definition katex_css :: string where
  "katex_css = ''https://cdn.jsdelivr.net/npm/katex@0.16.9/dist/katex.min.css''"

definition katex_js :: string where
  "katex_js = ''https://cdn.jsdelivr.net/npm/katex@0.16.9/dist/katex.min.js''"

definition mermaid_js :: string where
  "mermaid_js = ''https://cdn.jsdelivr.net/npm/mermaid@10.9.1/dist/mermaid.min.js''"

definition tailwind_js :: string where
  "tailwind_js = ''https://cdn.tailwindcss.com''"

subsection \<open>The loading effect and its cleanup\<close>

text \<open>The four nodes the effect creates; its cleanup closes over them.\<close>

record App_injected =
  linkKatex :: element
  scriptKatex :: element
  scriptMermaid :: element
  scriptTailwind :: element

definition App_effect :: "document \<Rightarrow> document \<times> App_injected" where
  "App_effect d =
     (case createElement ''link'' d of (l0, d1) \<Rightarrow>
      let l = l0\<lparr>rel := ''stylesheet'', href := katex_css\<rparr>;
          d2 = d1\<lparr>head_children := appendChild (head_children d1) l\<rparr>
      in case createElement ''script'' d2 of (k0, d3) \<Rightarrow>
      let k = k0\<lparr>src := katex_js\<rparr>;
          d4 = d3\<lparr>body_children := appendChild (body_children d3) k\<rparr>
      in case createElement ''script'' d4 of (m0, d5) \<Rightarrow>
      let m = m0\<lparr>src := mermaid_js\<rparr>;
          d6 = d5\<lparr>body_children := appendChild (body_children d5) m\<rparr>
      in case createElement ''script'' d6 of (t0, d7) \<Rightarrow>
      let t = t0\<lparr>src := tailwind_js\<rparr>;
          d8 = d7\<lparr>body_children := appendChild (body_children d7) t\<rparr>
      in (d8, \<lparr>linkKatex = l, scriptKatex = k, scriptMermaid = m, scriptTailwind = t\<rparr>))"

text \<open>\<^verbatim>\<open>if (parent.contains(x)) { parent.removeChild(x); }\<close>\<close>

definition remove_if_contained :: "element list \<Rightarrow> element \<Rightarrow> js_thrown + element list" where
  "remove_if_contained xs e = (if contains xs e then removeChild xs e else Inr xs)"

definition App_cleanup :: "App_injected \<Rightarrow> document \<Rightarrow> js_thrown + document" where
  "App_cleanup ns d =
     (case remove_if_contained (head_children d) (linkKatex ns) of
        Inl e \<Rightarrow> Inl e
      | Inr h \<Rightarrow>
     (case remove_if_contained (body_children d) (scriptKatex ns) of
        Inl e \<Rightarrow> Inl e
      | Inr b1 \<Rightarrow>
     (case remove_if_contained b1 (scriptMermaid ns) of
        Inl e \<Rightarrow> Inl e
      | Inr b2 \<Rightarrow>
     (case remove_if_contained b2 (scriptTailwind ns) of
        Inl e \<Rightarrow> Inl e
      | Inr b3 \<Rightarrow> Inr (d\<lparr>head_children := h, body_children := b3\<rparr>)))))"

subsection \<open>The readiness state and the page switch\<close>

record App_state =
  currentPage :: string
  katexLoaded :: bool
  mermaidLoaded :: bool
  tailwindLoaded :: bool

definition App_initial :: App_state where
  "App_initial =
     \<lparr>currentPage = ''home'', katexLoaded = False, mermaidLoaded = False, tailwindLoaded = False\<rparr>"

text \<open>
  Everything that writes a state cell of \<^verbatim>\<open>App\<close>: the three \<^verbatim>\<open>onload\<close> handlers and
  \<^verbatim>\<open>setCurrentPage\<close>, which the navigation bar and the home page call. (The handler
  of the Mermaid script also calls \<^verbatim>\<open>window.mermaid.initialize({ startOnLoad: false })\<close>
  when the global is defined; that call writes no state cell and is not modelled.)
\<close>

datatype App_event =
  scriptKatex_onload | scriptMermaid_onload | scriptTailwind_onload | setCurrentPage string

fun App_step :: "App_state \<Rightarrow> App_event \<Rightarrow> App_state" where
  "App_step s scriptKatex_onload = s\<lparr>katexLoaded := True\<rparr>"
| "App_step s scriptMermaid_onload = s\<lparr>mermaidLoaded := True\<rparr>"
| "App_step s scriptTailwind_onload = s\<lparr>tailwindLoaded := True\<rparr>"
| "App_step s (setCurrentPage page) = s\<lparr>currentPage := page\<rparr>"

definition App_run :: "App_event list \<Rightarrow> App_state \<Rightarrow> App_state" where
  "App_run evs s = foldl App_step s evs"

text \<open>
  What \<^verbatim>\<open>renderPage\<close> returns: the loading indicator, or the page component with the
  \<^verbatim>\<open>isMermaidLoaded\<close> prop it is given.
\<close>

datatype page =
  LoadingIndicator | HomePage | DirectMethod bool | ContraexampleMethod bool
  | AbsurdMethod bool | ContrapositiveMethod bool | InductionMethod bool

definition renderPage :: "App_state \<Rightarrow> page" where
  "renderPage s =
     (if \<not> katexLoaded s \<or> \<not> mermaidLoaded s \<or> \<not> tailwindLoaded s then LoadingIndicator
      else if currentPage s = ''home'' then HomePage
      else if currentPage s = ''direct'' then DirectMethod (mermaidLoaded s)
      else if currentPage s = ''contraexample'' then ContraexampleMethod (mermaidLoaded s)
      else if currentPage s = ''absurd'' then AbsurdMethod (mermaidLoaded s)
      else if currentPage s = ''contrapositive'' then ContrapositiveMethod (mermaidLoaded s)
      else if currentPage s = ''induction'' then InductionMethod (mermaidLoaded s)
      else HomePage)"

text \<open>The mounted \<^verbatim>\<open>App\<close>: its state cells, the nodes of its effect, and the document.\<close>

record App_instance =
  cells :: App_state
  nodes :: App_injected
  doc :: document

definition App_mount :: "document \<Rightarrow> App_instance" where
  "App_mount d = (case App_effect d of (d', ns) \<Rightarrow> \<lparr>cells = App_initial, nodes = ns, doc = d'\<rparr>)"

definition App_events :: "App_event list \<Rightarrow> App_instance \<Rightarrow> App_instance" where
  "App_events evs a = a\<lparr>cells := App_run evs (cells a)\<rparr>"

definition App_unmount :: "App_instance \<Rightarrow> js_thrown + document" where
  "App_unmount a = App_cleanup (nodes a) (doc a)"

text \<open>How often a locator occurs among the children of \<^verbatim>\<open>head\<close> and \<^verbatim>\<open>body\<close>.\<close>

definition occurrences :: "string \<Rightarrow> document \<Rightarrow> nat" where
  "occurrences url d =
     length (filter (\<lambda>e. href e = url \<or> src e = url) (head_children d @ body_children d))"

text \<open>A well-formed document: no node twice, and no node from the future.\<close>

definition wf_document :: "document \<Rightarrow> bool" where
  "wf_document d =
     (distinct (map node (head_children d @ body_children d)) \<and>
      list_all (\<lambda>e. node e < created d) (head_children d @ body_children d))"

subsection \<open>The earlier copy of App\<close>

text \<open>
  \<^verbatim>\<open>src/unnamed/part_000\<close>: three nodes, a cleanup that calls \<^verbatim>\<open>removeChild\<close> without a
  check, two readiness cells, and a page switch that waits for KaTeX alone.
\<close>

record App_injected_part000 =
  link_part000 :: element
  scriptKatex_part000 :: element
  scriptMermaid_part000 :: element

definition App_effect_part000 :: "document \<Rightarrow> document \<times> App_injected_part000" where
  "App_effect_part000 d =
     (case createElement ''link'' d of (l0, d1) \<Rightarrow>
      let l = l0\<lparr>rel := ''stylesheet'', href := katex_css\<rparr>;
          d2 = d1\<lparr>head_children := appendChild (head_children d1) l\<rparr>
      in case createElement ''script'' d2 of (k0, d3) \<Rightarrow>
      let k = k0\<lparr>src := katex_js\<rparr>;
          d4 = d3\<lparr>body_children := appendChild (body_children d3) k\<rparr>
      in case createElement ''script'' d4 of (m0, d5) \<Rightarrow>
      let m = m0\<lparr>src := mermaid_js\<rparr>;
          d6 = d5\<lparr>body_children := appendChild (body_children d5) m\<rparr>
      in (d6, \<lparr>link_part000 = l, scriptKatex_part000 = k, scriptMermaid_part000 = m\<rparr>))"

definition App_cleanup_part000 :: "App_injected_part000 \<Rightarrow> document \<Rightarrow> js_thrown + document" where
  "App_cleanup_part000 ns d =
     (case removeChild (head_children d) (link_part000 ns) of
        Inl e \<Rightarrow> Inl e
      | Inr h \<Rightarrow>
     (case removeChild (body_children d) (scriptKatex_part000 ns) of
        Inl e \<Rightarrow> Inl e
      | Inr b1 \<Rightarrow>
     (case removeChild b1 (scriptMermaid_part000 ns) of
        Inl e \<Rightarrow> Inl e
      | Inr b2 \<Rightarrow> Inr (d\<lparr>head_children := h, body_children := b2\<rparr>))))"

record App_state_part000 =
  currentPage_part000 :: string
  katexLoaded_part000 :: bool
  mermaidLoaded_part000 :: bool

datatype page_part000 =
  LoadingIndicator_part000 | HomePage_part000 | DirectMethod_part000 | ContraexampleMethod_part000
  | AbsurdMethod_part000 | ContrapositiveMethod_part000 | InductionMethod_part000

definition renderPage_part000 :: "App_state_part000 \<Rightarrow> page_part000" where
  "renderPage_part000 s =
     (if \<not> katexLoaded_part000 s then LoadingIndicator_part000
      else if currentPage_part000 s = ''home'' then HomePage_part000
      else if currentPage_part000 s = ''direct'' then DirectMethod_part000
      else if currentPage_part000 s = ''contraexample'' then ContraexampleMethod_part000
      else if currentPage_part000 s = ''absurd'' then AbsurdMethod_part000
      else if currentPage_part000 s = ''contrapositive'' then ContrapositiveMethod_part000
      else if currentPage_part000 s = ''induction'' then InductionMethod_part000
      else HomePage_part000)"

section \<open>Properties of KaTeXRenderer\<close>

text \<open>
  When the engine raises a value whose message can be computed and printed, the effect of
  either copy returns, having logged the value and written the red markup around the
  message.
\<close>

lemma KaTeXRenderer_effect_raised:
  assumes "ref_current w = Some inner"
    and "k (math p) (Some inner) (displayMode_of p) False = Raised e left"
    and "errorMsg e = Inr msg" and "interpolate msg = Inr s"
  shows "KaTeXRenderer_effect (Some k) p w =
           Inr \<lparr>ref_current = Some (katex_error_html s),
                console = console w @ [(''KaTeX rendering error:'', e)]\<rparr>"
    and "KaTeXRenderer_effect_part000 (Some k) p w = KaTeXRenderer_effect (Some k) p w"
  using assms
  by (simp_all add: KaTeXRenderer_effect_def KaTeXRenderer_effect_part000_def
      katex_render_call_def katex_catch_def katex_catch_part000_def set_innerHTML_def Let_def)

lemma katex_error_html_holds_message:
  "\<exists>pre post. katex_error_html msg = pre @ msg @ post \<and> pre \<noteq> []"
  unfolding katex_error_html_def
  by (rule exI [of _ "''<span style='' @ [CHR 0x22] @ ''color: red;'' @ [CHR 0x22] @ ''>'' @
     ''Erro de renderiza'' @ [CHR 0xC3, CHR 0xA7, CHR 0xC3, CHR 0xA3] @ ''o matem'' @
     [CHR 0xC3, CHR 0xA1] @ ''tica: ''"], rule exI [of _ "''</span>''"]) simp

lemma errorMsg_printable:
  "errorMsg (ErrorInstance m) = Inr (Text m)" "errorMsg (OtherThrown m) = Inr (Text m)"
  "interpolate (Text m) = Inr m"
  by (simp_all add: errorMsg_def interpolate_def)


text \<open>
  The same happens for an \<^verbatim>\<open>Error\<close> whose \<^verbatim>\<open>message\<close> cannot be printed: the template
  literal raises.
\<close>

lemma KaTeXRenderer_template_raises:
  "KaTeXRenderer_effect (Some (\<lambda>m t d th. Raised (ErrorMessageRaising x) []))
      \<lparr>math = ''x^'', displayMode = None\<rparr> \<lparr>ref_current = Some ''old'', console = []\<rparr>
    = Inl (x, \<lparr>ref_current = Some [],
               console = [(''KaTeX rendering error:'', ErrorMessageRaising x)]\<rparr>)"
  by (simp add: KaTeXRenderer_effect_def katex_render_call_def katex_catch_def set_innerHTML_def
      errorMsg_def interpolate_def Let_def)

lemma renders_skip:
  "last_deps i = Some (math p, displayMode_of p) \<Longrightarrow> KaTeXRenderer_renders n wk p i = Inr i"
  by (induction n) (simp_all add: KaTeXRenderer_render_def)

lemma render_sets_deps:
  "KaTeXRenderer_render wk p i = Inr i' \<Longrightarrow> last_deps i' = Some (math p, displayMode_of p)"
  by (auto simp: KaTeXRenderer_render_def split: if_splits sum.splits)

lemma renders_Suc: "KaTeXRenderer_renders (Suc n) wk p i = KaTeXRenderer_render wk p i"
  by (cases "KaTeXRenderer_render wk p i") (simp_all add: renders_skip render_sets_deps)

lemma katex_catch_content:
  assumes "ref_current w \<noteq> None" and "ref_current w' \<noteq> None"
  shows "content_after (katex_catch e w) = content_after (katex_catch e w')"
  using assms
  by (auto simp: katex_catch_def content_after_def set_innerHTML_def Let_def
      split: sum.splits)

lemma katex_catch_attached:
  "katex_catch e w = Inr w' \<Longrightarrow> ref_current w \<noteq> None \<Longrightarrow> ref_current w' \<noteq> None"
  by (auto simp: katex_catch_def set_innerHTML_def Let_def split: sum.splits if_splits)

lemma effect_attached:
  assumes "KaTeXRenderer_effect (Some k) p w = Inr w'" and "ref_current w \<noteq> None"
  shows "ref_current w' \<noteq> None"
proof (cases "k (math p) (ref_current w) (displayMode_of p) False")
  case (Rendered h)
  with assms show ?thesis
    by (auto simp: KaTeXRenderer_effect_def katex_render_call_def set_innerHTML_def)
next
  case (Raised e h)
  with assms have "katex_catch e (set_innerHTML h w) = Inr w'"
    by (auto simp: KaTeXRenderer_effect_def katex_render_call_def)
  moreover have "ref_current (set_innerHTML h w) \<noteq> None"
    using assms(2) by (auto simp: set_innerHTML_def)
  ultimately show ?thesis by (rule katex_catch_attached)
qed

lemma effect_content_same:
  assumes ov: "overwrites k (math p) (displayMode_of p)"
    and "ref_current w \<noteq> None" and "ref_current w' \<noteq> None"
  shows "content_after (KaTeXRenderer_effect (Some k) p w) =
         content_after (KaTeXRenderer_effect (Some k) p w')"
proof -
  from assms(2,3) obtain c c' where c: "ref_current w = Some c" and c': "ref_current w' = Some c'"
    by auto
  have same: "k (math p) (Some c') (displayMode_of p) False = k (math p) (Some c) (displayMode_of p) False"
    using ov unfolding overwrites_def by blast
  show ?thesis
  proof (cases "k (math p) (Some c) (displayMode_of p) False")
    case (Rendered h)
    then show ?thesis
      using c c' same
      by (simp add: KaTeXRenderer_effect_def katex_render_call_def set_innerHTML_def
          content_after_def)
  next
    case (Raised e h)
    have "content_after (katex_catch e (set_innerHTML h w)) =
          content_after (katex_catch e (set_innerHTML h w'))"
      by (rule katex_catch_content) (simp_all add: set_innerHTML_def c c')
    then show ?thesis
      using Raised c c' same
      by (simp add: KaTeXRenderer_effect_def katex_render_call_def)
  qed
qed

lemma effects_one: "KaTeXRenderer_effects (Suc 0) wk p w = KaTeXRenderer_effect wk p w"
  by (cases "KaTeXRenderer_effect wk p w") simp_all

lemma effects_content:
  assumes ov: "overwrites k (math p) (displayMode_of p)"
  shows "ref_current w \<noteq> None \<Longrightarrow>
     content_after (KaTeXRenderer_effects (Suc n) (Some k) p w) =
     content_after (KaTeXRenderer_effect (Some k) p w)"
proof (induction n arbitrary: w)
  case 0
  show ?case by (simp only: effects_one)
next
  case (Suc n)
  show ?case
  proof (cases "KaTeXRenderer_effect (Some k) p w")
    case (Inl ew)
    then show ?thesis by simp
  next
    case (Inr w')
    then have att: "ref_current w' \<noteq> None"
      using Suc.prems by (rule effect_attached)
    have "KaTeXRenderer_effects (Suc (Suc n)) (Some k) p w = KaTeXRenderer_effects (Suc n) (Some k) p w'"
      using Inr by simp
    then have "content_after (KaTeXRenderer_effects (Suc (Suc n)) (Some k) p w) =
        content_after (KaTeXRenderer_effects (Suc n) (Some k) p w')"
      by (rule arg_cong)
    also have "\<dots> = content_after (KaTeXRenderer_effect (Some k) p w')"
      by (rule Suc.IH [OF att])
    also have "\<dots> = content_after (KaTeXRenderer_effect (Some k) p w)"
      by (rule effect_content_same [OF ov att Suc.prems])
    finally show ?thesis .
  qed
qed

lemma effect_detached:
  "ref_current w = None \<Longrightarrow> KaTeXRenderer_effect wk p w = Inr w"
  by (simp add: KaTeXRenderer_effect_def split: option.splits)

lemma effects_detached:
  "ref_current w = None \<Longrightarrow> KaTeXRenderer_effects n wk p w = Inr w"
  by (induction n) (simp_all add: effect_detached)

text \<open>
  Claim C9. Rendering the component again with the same expression and display mode
  leaves it as one render did: the effect is not run again, since its dependencies did
  not change. And when the effect itself is run again on the same node, with an engine that
  overwrites its target, the content of the node after any number of runs is the content
  after one run.
\<close>

theorem KaTeXRenderer_rerender_idempotent:
  "KaTeXRenderer_renders (Suc n) wk p i = KaTeXRenderer_renders (Suc 0) wk p i
   \<and> (overwrites k (math p) (displayMode_of p) \<longrightarrow>
        content_after (KaTeXRenderer_effects (Suc n) (Some k) p w) =
        content_after (KaTeXRenderer_effects (Suc 0) (Some k) p w))"
proof (intro conjI impI)
  show "KaTeXRenderer_renders (Suc n) wk p i = KaTeXRenderer_renders (Suc 0) wk p i"
    by (simp only: renders_Suc)
next
  assume ov: "overwrites k (math p) (displayMode_of p)"
  show "content_after (KaTeXRenderer_effects (Suc n) (Some k) p w) =
        content_after (KaTeXRenderer_effects (Suc 0) (Some k) p w)"
  proof (cases "ref_current w")
    case None
    then show ?thesis by (simp only: effects_detached)
  next
    case (Some c)
    then have att: "ref_current w \<noteq> None" by simp
    show ?thesis
      by (simp only: effects_content [OF ov att] effects_content [OF ov att, of 0])
  qed
qed

theorem KaTeXRenderer_rerender_idempotent_witness:
  "overwrites (\<lambda>m t d th. Rendered (''<span class=katex>'' @ m @ ''</span>'')) ''P(x)'' False
   \<and> content_after (KaTeXRenderer_effects (Suc 2)
        (Some (\<lambda>m t d th. Rendered (''<span class=katex>'' @ m @ ''</span>'')))
        \<lparr>math = ''P(x)'', displayMode = None\<rparr> \<lparr>ref_current = Some [], console = []\<rparr>)
     = Some (Some ''<span class=katex>P(x)</span>'')"
  using KaTeXRenderer_rerender_idempotent
    [of 2 None "\<lparr>math = ''P(x)'', displayMode = None\<rparr>"
        "\<lparr>world = \<lparr>ref_current = Some [], console = []\<rparr>, last_deps = None\<rparr>"
        "\<lambda>m t d th. Rendered (''<span class=katex>'' @ m @ ''</span>'')"
        "\<lparr>ref_current = Some [], console = []\<rparr>"]
  by (simp add: overwrites_def displayMode_of_def content_after_def KaTeXRenderer_effect_def
      katex_render_call_def set_innerHTML_def)

section \<open>Properties of MermaidDiagram\<close>

lemma digits_distinct: "distinct ''0123456789''"
  by simp

lemma digit_char_inj:
  assumes "n < 10" and "m < 10" and "digit_char n = digit_char m"
  shows "n = m"
proof -
  have "n < length ''0123456789''" and "m < length ''0123456789''"
    using assms(1,2) by simp_all
  with assms(3) show ?thesis
    unfolding digit_char_def by (simp only: nth_eq_iff_index_eq [OF digits_distinct])
qed

lemma digit_char_not_dash:
  assumes "n < 10"
  shows "digit_char n \<noteq> CHR ''-''"
proof -
  have "n < length ''0123456789''" using assms by simp
  then have "digit_char n \<in> set ''0123456789''"
    unfolding digit_char_def by (rule nth_mem)
  then show ?thesis by auto
qed

lemma decimal_not_Nil: "decimal n \<noteq> []"
  by (subst decimal.simps) simp

lemma dash_notin_decimal: "CHR ''-'' \<notin> set (decimal n)"
proof (induction n rule: decimal.induct)
  case (1 n)
  show ?case
  proof (cases "n < 10")
    case True
    then show ?thesis
      using digit_char_not_dash [of n] by (subst decimal.simps) auto
  next
    case False
    then have "CHR ''-'' \<notin> set (decimal (n div 10))" using "1" by simp
    moreover have "digit_char (n mod 10) \<noteq> CHR ''-''"
      by (rule digit_char_not_dash) simp
    ultimately show ?thesis
      using False by (subst decimal.simps) auto
  qed
qed

lemma decimal_length_1: "length (decimal n) = Suc 0 \<longleftrightarrow> n < 10"
proof (cases "n < 10")
  case True
  then show ?thesis by (subst decimal.simps) simp
next
  case False
  then show ?thesis
    using decimal_not_Nil [of "n div 10"]
    by (subst decimal.simps) (cases "decimal (n div 10)"; simp)
qed

lemma decimal_inj: "decimal n = decimal m \<Longrightarrow> n = m"
proof (induction n arbitrary: m rule: decimal.induct)
  case (1 n)
  show ?case
  proof (cases "n < 10")
    case True
    then have "length (decimal n) = Suc 0" by (simp only: decimal_length_1)
    then have m: "m < 10" using "1.prems" by (simp add: decimal_length_1)
    from True m "1.prems" have "digit_char n = digit_char m"
      by (simp add: decimal.simps [of n] decimal.simps [of m])
    with True m show ?thesis by (rule digit_char_inj)
  next
    case False
    then have "length (decimal n) \<noteq> Suc 0" by (simp only: decimal_length_1) simp
    then have m: "\<not> m < 10" using "1.prems" by (simp add: decimal_length_1)
    from False m "1.prems" have
      "decimal (n div 10) @ [digit_char (n mod 10)] = decimal (m div 10) @ [digit_char (m mod 10)]"
      by (simp add: decimal.simps [of n] decimal.simps [of m])
    then have a: "decimal (n div 10) = decimal (m div 10)"
      and b: "digit_char (n mod 10) = digit_char (m mod 10)"
      by simp_all
    from a have "n div 10 = m div 10" using "1.IH" False by simp
    moreover have "n mod 10 = m mod 10" by (rule digit_char_inj [OF _ _ b]) simp_all
    ultimately show ?thesis by (metis div_mult_mod_eq)
  qed
qed

lemma split_at_separator:
  "x \<notin> set xs \<Longrightarrow> x \<notin> set xs' \<Longrightarrow> xs @ x # ys = xs' @ x # ys' \<Longrightarrow> xs = xs' \<and> ys = ys'"
proof (induction xs arbitrary: xs')
  case Nil
  then show ?case by (cases xs') auto
next
  case (Cons a xs)
  then show ?case by (cases xs') auto
qed

lemma uniqueId_inj: "uniqueId n1 r1 = uniqueId n2 r2 \<longleftrightarrow> n1 = n2 \<and> r1 = r2"
proof
  assume "uniqueId n1 r1 = uniqueId n2 r2"
  then have "decimal n1 @ CHR ''-'' # r1 = decimal n2 @ CHR ''-'' # r2"
    by (simp add: uniqueId_def)
  then have "decimal n1 = decimal n2 \<and> r1 = r2"
    using dash_notin_decimal [of n1] dash_notin_decimal [of n2]
    by (intro split_at_separator)
  then show "n1 = n2 \<and> r1 = r2" using decimal_inj by blast
qed simp

lemma uniqueId_example:
  "uniqueId 1700000000000 ''4fzzzxjyl'' = ''mermaid-chart-1700000000000-4fzzzxjyl''"
  by (simp add: uniqueId_def decimal.simps digit_char_def)

lemma MermaidDiagram_effect_ids:
  "map job_id (snd (MermaidDiagram_effect wm r now rnd p s)) =
     (if isMermaidLoaded p \<and> wm \<noteq> None \<and> r \<and> chart p \<noteq> [] then [uniqueId now rnd] else [])"
  by (auto simp: MermaidDiagram_effect_def issue_def split: option.splits)

lemma render_effect_part000_ids:
  "map job_id (case render_effect_part000 wm c s of Inl e \<Rightarrow> [] | Inr js \<Rightarrow> js) =
     (if c \<noteq> [] \<and> mermaidReady s \<and> wm \<noteq> None then [''mermaid-svg''] else [])"
  by (auto simp: render_effect_part000_def issue_def split: option.splits)

text \<open>
  Against claim C4 as stated, in the earlier copy, from mount: the chart changes while the
  first job is in flight; two render attempts, for two different charts, are pending
  together and were both handed the identifier \<^verbatim>\<open>mermaid-svg\<close>.
\<close>

theorem MermaidDiagram_fixed_identifier_counterexample:
  "\<exists>i. MermaidDiagram_run_part000
          [Render_part000 (Some (\<lambda>ident c. Inr (''<svg>'' @ c @ ''</svg>''))) ''graph TD; A-->B'',
           Render_part000 (Some (\<lambda>ident c. Inr (''<svg>'' @ c @ ''</svg>''))) ''graph TD; C-->D'']
          MermaidDiagram_initial_part000 = Inr i
       \<and> map job_source (pending_part000 i) = [''graph TD; A-->B'', ''graph TD; C-->D'']
       \<and> map job_id (pending_part000 i) = [''mermaid-svg'', ''mermaid-svg'']"
  by (simp add: MermaidDiagram_render_part000_def MermaidDiagram_pass_part000_def
      MermaidDiagram_initial_part000_def ready_effect_part000_def render_effect_part000_def
      issue_def Let_def)

text \<open>
  Claim C4, amended. In \<^verbatim>\<open>App.tsx\<close> the identifier an attempt hands to the engine is
  \<^verbatim>\<open>mermaid-chart-\<close>, the clock reading in decimal, a dash and the random suffix, and
  two such identifiers are equal exactly when both the clock readings and the suffixes are
  equal. In the earlier copy every attempt hands the engine the fixed identifier
  \<^verbatim>\<open>mermaid-svg\<close>, which all attempts of the process therefore share.
\<close>

theorem MermaidDiagram_identifiers:
  "map job_id (snd (MermaidDiagram_effect wm r now rnd p s)) =
     (if isMermaidLoaded p \<and> wm \<noteq> None \<and> r \<and> chart p \<noteq> [] then [uniqueId now rnd] else [])
   \<and> (uniqueId n1 r1 = uniqueId n2 r2 \<longleftrightarrow> n1 = n2 \<and> r1 = r2)
   \<and> map job_id (case render_effect_part000 wm c s0 of Inl e \<Rightarrow> [] | Inr js \<Rightarrow> js) =
     (if c \<noteq> [] \<and> mermaidReady s0 \<and> wm \<noteq> None then [''mermaid-svg''] else [])"
  by (simp only: MermaidDiagram_effect_ids uniqueId_inj render_effect_part000_ids simp_thms)

text \<open>
  The earlier copy hands the engine the fixed identifier \<^verbatim>\<open>mermaid-svg\<close> at every
  attempt.
\<close>

lemma render_effect_part000_fixed_identifier:
  "render_effect_part000 wm c s = Inr js \<Longrightarrow> list_all (\<lambda>j. job_id j = ''mermaid-svg'') js"
  by (auto simp: render_effect_part000_def issue_def split: if_splits option.splits)

lemma MermaidDiagram_effect_not_loaded:
  "\<not> isMermaidLoaded p \<Longrightarrow>
     MermaidDiagram_effect wm r now rnd p s = (\<lparr>renderError = None, diagramSvg = None\<rparr>, [])"
  by (simp add: MermaidDiagram_effect_def)

lemma MermaidDiagram_effect_no_chart:
  "isMermaidLoaded p \<Longrightarrow> chart p = [] \<Longrightarrow>
     MermaidDiagram_effect wm r now rnd p s =
       (\<lparr>renderError = Some ''Nenhum diagrama Mermaid fornecido.'', diagramSvg = None\<rparr>, [])"
  by (simp add: MermaidDiagram_effect_def)

lemma MermaidDiagram_return_cleared:
  "MermaidDiagram_return \<lparr>renderError = None, diagramSvg = None\<rparr> = WaitingParagraph"
  by (simp add: MermaidDiagram_return_def)

text \<open>
  Against claim C5 as stated: mounted with an empty chart while the engine is loaded, the
  component shows an error message, not the waiting placeholder.
\<close>

theorem MermaidDiagram_empty_chart_counterexample:
  "MermaidDiagram_return (hooks (MermaidDiagram_render
       \<lparr>window_mermaid = Some (\<lambda>ident c. Inr c), clock = 0, random36 = []\<rparr>
       \<lparr>chart = [], isMermaidLoaded = True\<rparr> MermaidDiagram_initial))
     = ErrorParagraph ''Nenhum diagrama Mermaid fornecido.''"
  by (simp add: MermaidDiagram_render_def MermaidDiagram_initial_def MermaidDiagram_effect_no_chart
      MermaidDiagram_return_def)

text \<open>
  Claim C5, amended. When the engine is not loaded, the effect clears the stored markup
  and the stored error, starts no job, and the component shows the waiting placeholder.
  When the engine is loaded and the chart is empty, the effect clears the stored markup,
  starts no job, and stores the message \<^verbatim>\<open>Nenhum diagrama Mermaid fornecido.\<close>, which
  the component shows.
\<close>

theorem MermaidDiagram_idle:
  "(\<not> isMermaidLoaded p \<longrightarrow>
      MermaidDiagram_effect wm r now rnd p s = (\<lparr>renderError = None, diagramSvg = None\<rparr>, [])
      \<and> MermaidDiagram_return (fst (MermaidDiagram_effect wm r now rnd p s)) = WaitingParagraph)
   \<and> (isMermaidLoaded p \<and> chart p = [] \<longrightarrow>
      MermaidDiagram_effect wm r now rnd p s =
        (\<lparr>renderError = Some ''Nenhum diagrama Mermaid fornecido.'', diagramSvg = None\<rparr>, [])
      \<and> MermaidDiagram_return (fst (MermaidDiagram_effect wm r now rnd p s)) =
          ErrorParagraph ''Nenhum diagrama Mermaid fornecido.'')"
  by (simp add: MermaidDiagram_effect_not_loaded MermaidDiagram_effect_no_chart
      MermaidDiagram_return_def)

theorem MermaidDiagram_idle_witness:
  "MermaidDiagram_effect None False 0 [] \<lparr>chart = ''graph TD; A-->B'', isMermaidLoaded = False\<rparr>
      \<lparr>renderError = Some ''Erro ao renderizar diagrama.'', diagramSvg = Some ''<svg/>''\<rparr>
     = (\<lparr>renderError = None, diagramSvg = None\<rparr>, [])
   \<and> MermaidDiagram_effect None False 0 [] \<lparr>chart = [], isMermaidLoaded = True\<rparr>
      \<lparr>renderError = None, diagramSvg = Some ''<svg/>''\<rparr>
     = (\<lparr>renderError = Some ''Nenhum diagrama Mermaid fornecido.'', diagramSvg = None\<rparr>, [])"
  using MermaidDiagram_idle [of "\<lparr>chart = ''graph TD; A-->B'', isMermaidLoaded = False\<rparr>" None False 0 "[]"
      "\<lparr>renderError = Some ''Erro ao renderizar diagrama.'', diagramSvg = Some ''<svg/>''\<rparr>"]
    MermaidDiagram_idle [of "\<lparr>chart = [], isMermaidLoaded = True\<rparr>" None False 0 "[]"
      "\<lparr>renderError = None, diagramSvg = Some ''<svg/>''\<rparr>"]
  by simp

lemma settle_nothing_pending: "pending i = [] \<Longrightarrow> MermaidDiagram_settle n i = i"
  by (simp add: MermaidDiagram_settle_def)


lemma MermaidDiagram_run_Cons:
  "MermaidDiagram_run (ev # evs) i = MermaidDiagram_run evs (MermaidDiagram_step i ev)"
  by (simp add: MermaidDiagram_run_def)




lemma MermaidDiagram_effect_attempt:
  assumes "snd (MermaidDiagram_effect wm r now rnd p s) \<noteq> []"
  shows "\<exists>m. wm = Some m \<and> r \<and> isMermaidLoaded p \<and> chart p \<noteq> [] \<and>
           MermaidDiagram_effect wm r now rnd p s =
             (\<lparr>renderError = None, diagramSvg = None\<rparr>, [issue m (uniqueId now rnd) (chart p)])"
  using assms by (auto simp: MermaidDiagram_effect_def split: if_splits option.splits)

lemma MermaidDiagram_render_attempt:
  assumes "pending (MermaidDiagram_render env p i) \<noteq> pending i"
  shows "hooks (MermaidDiagram_render env p i) = \<lparr>renderError = None, diagramSvg = None\<rparr>"
    and "deps (MermaidDiagram_render env p i) = Some (chart p, isMermaidLoaded p)"
proof -
  let ?e = "MermaidDiagram_effect (window_mermaid env) (mermaidRef_current (hooks i))
              (clock env) (random36 env) p (hooks i)"
  from assms have changed: "deps i \<noteq> Some (chart p, isMermaidLoaded p)"
    by (auto simp: MermaidDiagram_render_def)
  then have r: "MermaidDiagram_render env p i =
      i\<lparr>hooks := fst ?e, deps := Some (chart p, isMermaidLoaded p), pending := pending i @ snd ?e\<rparr>"
    by (simp add: MermaidDiagram_render_def split: prod.splits)
  with assms have "snd ?e \<noteq> []" by auto
  from MermaidDiagram_effect_attempt [OF this] r
  show "hooks (MermaidDiagram_render env p i) = \<lparr>renderError = None, diagramSvg = None\<rparr>"
    and "deps (MermaidDiagram_render env p i) = Some (chart p, isMermaidLoaded p)"
    by auto
qed

lemma MermaidDiagram_render_same_deps:
  "deps i = Some (chart p, isMermaidLoaded p) \<Longrightarrow> MermaidDiagram_render env p i = i"
  by (simp add: MermaidDiagram_render_def)

lemma render_keeps_one_attempt:
  assumes "one_attempt_at_a_time i"
  shows "one_attempt_at_a_time (MermaidDiagram_render env p i)"
proof (cases "pending i = []")
  case True
  then show ?thesis
    by (auto simp: one_attempt_at_a_time_def MermaidDiagram_render_def MermaidDiagram_effect_def
        split: option.splits)
next
  case False
  with assms have svg: "diagramSvg (hooks i) = None" and len: "length (pending i) = 1"
    and err: "renderError (hooks i) \<in> {None, Some ''Nenhum diagrama Mermaid fornecido.''}"
    by (auto simp: one_attempt_at_a_time_def)
  from svg have "\<not> mermaidRef_current (hooks i)"
    by (simp add: mermaidRef_current_def MermaidDiagram_return_def split: option.splits)
  then show ?thesis
    using svg len err
    by (auto simp: one_attempt_at_a_time_def MermaidDiagram_render_def MermaidDiagram_effect_def)
qed

lemma settle_keeps_one_attempt:
  assumes "one_attempt_at_a_time i"
  shows "one_attempt_at_a_time (MermaidDiagram_settle n i)"
proof (cases "n < length (pending i)")
  case False
  then show ?thesis using assms by (simp add: MermaidDiagram_settle_def)
next
  case True
  with assms have "length (pending i) = 1" and "n = 0"
    by (auto simp: one_attempt_at_a_time_def)
  then have "pending (MermaidDiagram_settle n i) = []"
    by (cases "pending i") (auto simp: MermaidDiagram_settle_def split: sum.splits)
  then show ?thesis by (simp add: one_attempt_at_a_time_def)
qed

lemma run_keeps_one_attempt:
  "one_attempt_at_a_time i \<Longrightarrow> one_attempt_at_a_time (MermaidDiagram_run evs i)"
proof (induction evs arbitrary: i)
  case Nil
  then show ?case by (simp add: MermaidDiagram_run_def)
next
  case (Cons ev evs)
  have "one_attempt_at_a_time (MermaidDiagram_step i ev)"
    using Cons.prems by (cases ev) (simp_all add: render_keeps_one_attempt settle_keeps_one_attempt)
  then show ?case
    using Cons.IH by (simp only: MermaidDiagram_run_Cons)
qed

lemma one_attempt_view:
  "one_attempt_at_a_time i \<Longrightarrow> pending i \<noteq> [] \<Longrightarrow>
     length (pending i) = 1 \<and>
     MermaidDiagram_return (hooks i) \<in>
       {WaitingParagraph, ErrorParagraph ''Nenhum diagrama Mermaid fornecido.''}"
  by (auto simp: one_attempt_at_a_time_def MermaidDiagram_return_def)

text \<open>
  When the effect does start a render attempt, the state it leaves has both the stored
  markup and the stored error cleared, and exactly one job was handed to the engine, for
  the current chart; the component then shows the waiting placeholder through every
  further render with the same props. Over any history that begins with nothing in
  flight, at most one job is in flight at a time, and while one is, the component shows
  the waiting placeholder or the message for an empty chart.
\<close>

lemma MermaidDiagram_attempt_clears_first:
  "(snd (MermaidDiagram_effect wm r now rnd p s) \<noteq> [] \<longrightarrow>
       fst (MermaidDiagram_effect wm r now rnd p s) = \<lparr>renderError = None, diagramSvg = None\<rparr>
     \<and> MermaidDiagram_return (fst (MermaidDiagram_effect wm r now rnd p s)) = WaitingParagraph
     \<and> (\<exists>m. wm = Some m \<and>
           snd (MermaidDiagram_effect wm r now rnd p s) = [issue m (uniqueId now rnd) (chart p)]))
   \<and> (pending (MermaidDiagram_render env p i) \<noteq> pending i \<longrightarrow>
       hooks (MermaidDiagram_render env p i) = \<lparr>renderError = None, diagramSvg = None\<rparr>
     \<and> MermaidDiagram_return (hooks (MermaidDiagram_render env p i)) = WaitingParagraph
     \<and> MermaidDiagram_render env' p (MermaidDiagram_render env p i) = MermaidDiagram_render env p i)
   \<and> (pending i = [] \<and> pending (MermaidDiagram_run evs i) \<noteq> [] \<longrightarrow>
       length (pending (MermaidDiagram_run evs i)) = 1
     \<and> MermaidDiagram_return (hooks (MermaidDiagram_run evs i)) \<in>
         {WaitingParagraph, ErrorParagraph ''Nenhum diagrama Mermaid fornecido.''})"
proof (intro conjI impI)
  assume a: "snd (MermaidDiagram_effect wm r now rnd p s) \<noteq> []"
  from MermaidDiagram_effect_attempt [OF a]
  show "fst (MermaidDiagram_effect wm r now rnd p s) = \<lparr>renderError = None, diagramSvg = None\<rparr>"
    and "MermaidDiagram_return (fst (MermaidDiagram_effect wm r now rnd p s)) = WaitingParagraph"
    and "\<exists>m. wm = Some m \<and>
           snd (MermaidDiagram_effect wm r now rnd p s) = [issue m (uniqueId now rnd) (chart p)]"
    by (auto simp: MermaidDiagram_return_cleared)
next
  assume a: "pending (MermaidDiagram_render env p i) \<noteq> pending i"
  show h: "hooks (MermaidDiagram_render env p i) = \<lparr>renderError = None, diagramSvg = None\<rparr>"
    by (rule MermaidDiagram_render_attempt(1) [OF a])
  show "MermaidDiagram_return (hooks (MermaidDiagram_render env p i)) = WaitingParagraph"
    by (simp only: h MermaidDiagram_return_cleared)
  show "MermaidDiagram_render env' p (MermaidDiagram_render env p i) = MermaidDiagram_render env p i"
    by (rule MermaidDiagram_render_same_deps [OF MermaidDiagram_render_attempt(2) [OF a]])
next
  assume a: "pending i = [] \<and> pending (MermaidDiagram_run evs i) \<noteq> []"
  then have "one_attempt_at_a_time i" by (simp add: one_attempt_at_a_time_def)
  then have "one_attempt_at_a_time (MermaidDiagram_run evs i)" by (rule run_keeps_one_attempt)
  from one_attempt_view [OF this] a
  show "length (pending (MermaidDiagram_run evs i)) = 1"
    and "MermaidDiagram_return (hooks (MermaidDiagram_run evs i)) \<in>
         {WaitingParagraph, ErrorParagraph ''Nenhum diagrama Mermaid fornecido.''}"
    by simp_all
qed

lemma issue_nothing_from_waiting:
  assumes "diagramSvg (hooks i) = None" and "pending i = []"
  shows "diagramSvg (hooks (MermaidDiagram_render env p i)) = None
         \<and> pending (MermaidDiagram_render env p i) = []"
proof -
  have "\<not> mermaidRef_current (hooks i)"
    using assms(1) by (simp add: mermaidRef_current_def MermaidDiagram_return_def split: option.splits)
  then show ?thesis
    using assms by (simp add: MermaidDiagram_render_def MermaidDiagram_effect_def)
qed

lemma never_issues_run:
  "diagramSvg (hooks i) = None \<Longrightarrow> pending i = [] \<Longrightarrow>
     diagramSvg (hooks (MermaidDiagram_run evs i)) = None \<and> pending (MermaidDiagram_run evs i) = []"
proof (induction evs arbitrary: i)
  case Nil
  then show ?case by (simp add: MermaidDiagram_run_def)
next
  case (Cons ev evs)
  have "diagramSvg (hooks (MermaidDiagram_step i ev)) = None \<and> pending (MermaidDiagram_step i ev) = []"
  proof (cases ev)
    case (Render env p)
    then show ?thesis using issue_nothing_from_waiting [OF Cons.prems, of env p] by simp
  next
    case (Settle n)
    then show ?thesis using Cons.prems by (simp add: settle_nothing_pending)
  qed
  then show ?case
    using Cons.IH [of "MermaidDiagram_step i ev"] by (simp only: MermaidDiagram_run_Cons)
qed

text \<open>
  The guard of the effect also asks for \<^verbatim>\<open>mermaidRef.current\<close>, and the ref sits on the
  \<^verbatim>\<open>div\<close> that is returned only once some markup is stored. From mount, therefore, no
  history of renders and settlements ever starts a job or stores any markup.
\<close>

lemma MermaidDiagram_never_issues:
  "pending (MermaidDiagram_run evs MermaidDiagram_initial) = []
   \<and> diagramSvg (hooks (MermaidDiagram_run evs MermaidDiagram_initial)) = None"
  using never_issues_run [of MermaidDiagram_initial evs] by (simp add: MermaidDiagram_initial_def)

text \<open>
  Claim C10, at the input where the code departs from it. The component is mounted with an
  empty chart while the engine is loaded, and stores the message for an empty chart; then
  the chart becomes non-empty, the engine still loaded and \<^verbatim>\<open>window.mermaid\<close> defined.
  The effect runs, but \<^verbatim>\<open>mermaidRef.current\<close> is \<^verbatim>\<open>null\<close>: nothing is cleared, no job
  is handed to the engine, and the component goes on showing the earlier message instead
  of the waiting placeholder.
\<close>

theorem MermaidDiagram_ready_chart_starts_nothing:
  "MermaidDiagram_run
      [Render \<lparr>window_mermaid = Some (\<lambda>ident c. Inr (''<svg>'' @ c @ ''</svg>'')), clock = 7, random36 = ''k2''\<rparr>
         \<lparr>chart = [], isMermaidLoaded = True\<rparr>,
       Render \<lparr>window_mermaid = Some (\<lambda>ident c. Inr (''<svg>'' @ c @ ''</svg>'')), clock = 8, random36 = ''k3''\<rparr>
         \<lparr>chart = ''graph TD; A-->B'', isMermaidLoaded = True\<rparr>]
      MermaidDiagram_initial
    = \<lparr>hooks = \<lparr>renderError = Some ''Nenhum diagrama Mermaid fornecido.'', diagramSvg = None\<rparr>,
       deps = Some (''graph TD; A-->B'', True), pending = [], log = []\<rparr>
   \<and> MermaidDiagram_return (hooks (MermaidDiagram_run
      [Render \<lparr>window_mermaid = Some (\<lambda>ident c. Inr (''<svg>'' @ c @ ''</svg>'')), clock = 7, random36 = ''k2''\<rparr>
         \<lparr>chart = [], isMermaidLoaded = True\<rparr>,
       Render \<lparr>window_mermaid = Some (\<lambda>ident c. Inr (''<svg>'' @ c @ ''</svg>'')), clock = 8, random36 = ''k3''\<rparr>
         \<lparr>chart = ''graph TD; A-->B'', isMermaidLoaded = True\<rparr>]
      MermaidDiagram_initial))
    = ErrorParagraph ''Nenhum diagrama Mermaid fornecido.''
   \<and> pending (MermaidDiagram_run
      [Render \<lparr>window_mermaid = Some (\<lambda>ident c. Inr (''<svg>'' @ c @ ''</svg>'')), clock = 7, random36 = ''k2''\<rparr>
         \<lparr>chart = ''graph TD; A-->B'', isMermaidLoaded = True\<rparr>]
      MermaidDiagram_initial) = []"
  by (simp add: MermaidDiagram_run_def MermaidDiagram_render_def MermaidDiagram_effect_def
      MermaidDiagram_initial_def mermaidRef_current_def MermaidDiagram_return_def)

text \<open>
  From an instance that shows a diagram: the chart changes, a job starts; the chart
  changes again before the job settles, and nothing starts (the ref is gone); the job
  settles and its markup is shown, for a chart that is no longer the current one.
\<close>

lemma MermaidDiagram_stale_result:
  "MermaidDiagram_run
      [Render \<lparr>window_mermaid = Some (\<lambda>ident c. Inr (''<svg>'' @ c @ ''</svg>'')), clock = 7, random36 = ''k2''\<rparr>
         \<lparr>chart = ''graph TD; C-->D'', isMermaidLoaded = True\<rparr>,
       Render \<lparr>window_mermaid = Some (\<lambda>ident c. Inr (''<svg>'' @ c @ ''</svg>'')), clock = 8, random36 = ''k3''\<rparr>
         \<lparr>chart = ''graph TD; E-->F'', isMermaidLoaded = True\<rparr>,
       Settle 0]
      \<lparr>hooks = \<lparr>renderError = None, diagramSvg = Some ''<svg>old</svg>''\<rparr>,
       deps = Some (''graph TD; A-->B'', True), pending = [], log = []\<rparr>
    = \<lparr>hooks = \<lparr>renderError = None, diagramSvg = Some ''<svg>graph TD; C-->D</svg>''\<rparr>,
       deps = Some (''graph TD; E-->F'', True), pending = [], log = []\<rparr>"
  by (simp add: MermaidDiagram_run_def MermaidDiagram_render_def MermaidDiagram_effect_def
      mermaidRef_current_def MermaidDiagram_return_def issue_def MermaidDiagram_settle_def
      then_handler_def)







section \<open>Properties of App\<close>

lemma App_step_monotone:
  "(katexLoaded s \<longrightarrow> katexLoaded (App_step s ev))
   \<and> (mermaidLoaded s \<longrightarrow> mermaidLoaded (App_step s ev))
   \<and> (tailwindLoaded s \<longrightarrow> tailwindLoaded (App_step s ev))"
  by (cases ev) simp_all

lemma App_run_monotone:
  "(katexLoaded s \<longrightarrow> katexLoaded (App_run evs s))
   \<and> (mermaidLoaded s \<longrightarrow> mermaidLoaded (App_run evs s))
   \<and> (tailwindLoaded s \<longrightarrow> tailwindLoaded (App_run evs s))"
proof (induction evs arbitrary: s)
  case Nil
  show ?case by (simp add: App_run_def)
next
  case (Cons ev evs)
  have "App_run (ev # evs) s = App_run evs (App_step s ev)" by (simp add: App_run_def)
  then show ?case using Cons [of "App_step s ev"] App_step_monotone [of s ev] by simp
qed

lemma renderPage_gate:
  "renderPage s \<noteq> LoadingIndicator \<longleftrightarrow> katexLoaded s \<and> mermaidLoaded s \<and> tailwindLoaded s"
  by (simp add: renderPage_def)

text \<open>
  Claim C2. \<^verbatim>\<open>renderPage\<close> returns a content page instead of the loading indicator
  exactly when \<^verbatim>\<open>katexLoaded\<close>, \<^verbatim>\<open>mermaidLoaded\<close> and \<^verbatim>\<open>tailwindLoaded\<close> are all
  true; at mount it returns the loading indicator; no handler ever sets a signal back to
  false, so over any history of the mounted component each signal that is true stays true,
  and once a content page is returned the loading indicator never comes back.
\<close>

theorem readiness_gate:
  "(renderPage s \<noteq> LoadingIndicator \<longleftrightarrow> katexLoaded s \<and> mermaidLoaded s \<and> tailwindLoaded s)
   \<and> renderPage App_initial = LoadingIndicator
   \<and> (katexLoaded s \<longrightarrow> katexLoaded (App_run evs s))
   \<and> (mermaidLoaded s \<longrightarrow> mermaidLoaded (App_run evs s))
   \<and> (tailwindLoaded s \<longrightarrow> tailwindLoaded (App_run evs s))
   \<and> (renderPage s \<noteq> LoadingIndicator \<longrightarrow> renderPage (App_run evs s) \<noteq> LoadingIndicator)"
  using App_run_monotone [of s evs]
  by (simp add: renderPage_gate) (simp add: renderPage_def App_initial_def)

theorem readiness_gate_witness:
  "renderPage \<lparr>currentPage = ''direct'', katexLoaded = True, mermaidLoaded = True, tailwindLoaded = True\<rparr>
     = DirectMethod True
   \<and> renderPage (App_run [setCurrentPage ''absurd'', scriptKatex_onload]
       \<lparr>currentPage = ''direct'', katexLoaded = True, mermaidLoaded = True, tailwindLoaded = True\<rparr>)
     \<noteq> LoadingIndicator"
  using readiness_gate
    [of "\<lparr>currentPage = ''direct'', katexLoaded = True, mermaidLoaded = True, tailwindLoaded = True\<rparr>"
        "[setCurrentPage ''absurd'', scriptKatex_onload]"]
  by (simp add: renderPage_def)

text \<open>
  The earlier copy waits for KaTeX alone: it has no Tailwind signal, and its
  \<^verbatim>\<open>mermaidLoaded\<close> is not read by the page switch.
\<close>

lemma renderPage_part000_gate:
  "renderPage_part000 s \<noteq> LoadingIndicator_part000 \<longleftrightarrow> katexLoaded_part000 s"
  by (simp add: renderPage_part000_def)

lemma App_effect_eq:
  "App_effect d =
     (\<lparr>head_children = head_children d @
          [\<lparr>node = created d, tagName = ''link'', rel = ''stylesheet'', href = katex_css, src = []\<rparr>],
       body_children = body_children d @
          [\<lparr>node = Suc (created d), tagName = ''script'', rel = [], href = [], src = katex_js\<rparr>,
           \<lparr>node = Suc (Suc (created d)), tagName = ''script'', rel = [], href = [], src = mermaid_js\<rparr>,
           \<lparr>node = Suc (Suc (Suc (created d))), tagName = ''script'', rel = [], href = [], src = tailwind_js\<rparr>],
       created = Suc (Suc (Suc (Suc (created d))))\<rparr>,
      \<lparr>linkKatex = \<lparr>node = created d, tagName = ''link'', rel = ''stylesheet'', href = katex_css, src = []\<rparr>,
       scriptKatex = \<lparr>node = Suc (created d), tagName = ''script'', rel = [], href = [], src = katex_js\<rparr>,
       scriptMermaid = \<lparr>node = Suc (Suc (created d)), tagName = ''script'', rel = [], href = [], src = mermaid_js\<rparr>,
       scriptTailwind = \<lparr>node = Suc (Suc (Suc (created d))), tagName = ''script'', rel = [], href = [], src = tailwind_js\<rparr>\<rparr>)"
  by (simp add: App_effect_def createElement_def appendChild_def Let_def)

lemma remove_if_contained_eq:
  "remove_if_contained xs e = Inr (filter (\<lambda>x. node x \<noteq> node e) xs)"
proof (cases "contains xs e")
  case True
  then show ?thesis by (simp add: remove_if_contained_def removeChild_def)
next
  case False
  then have "filter (\<lambda>x. node x \<noteq> node e) xs = xs"
    unfolding contains_def filter_id_conv set_map by (metis imageI)
  with False show ?thesis by (simp add: remove_if_contained_def)
qed

lemma App_cleanup_eq:
  "App_cleanup ns d =
     Inr (d\<lparr>head_children := filter (\<lambda>x. node x \<noteq> node (linkKatex ns)) (head_children d),
            body_children :=
              filter (\<lambda>x. node x \<noteq> node (scriptTailwind ns))
                (filter (\<lambda>x. node x \<noteq> node (scriptMermaid ns))
                  (filter (\<lambda>x. node x \<noteq> node (scriptKatex ns)) (body_children d)))\<rparr>)"
  by (simp add: App_cleanup_def remove_if_contained_eq)

lemma not_contains_filter: "\<not> contains (filter (\<lambda>x. node x \<noteq> node e) xs) e"
  by (auto simp: contains_def)

lemma not_contains_filter_more: "\<not> contains xs e \<Longrightarrow> \<not> contains (filter P xs) e"
  by (auto simp: contains_def)

lemma filter_old_nodes:
  "list_all (\<lambda>e. node e < c) xs \<Longrightarrow> c \<le> n \<Longrightarrow> filter (\<lambda>x. node x \<noteq> n) xs = xs"
  by (auto simp: filter_id_conv list_all_iff)


lemma App_mount_eq:
  "App_mount d = \<lparr>cells = App_initial, nodes = snd (App_effect d), doc = fst (App_effect d)\<rparr>"
  by (simp add: App_mount_def split: prod.splits)

lemma App_unmount_eq:
  "App_unmount (App_events evs (App_mount d)) = App_cleanup (snd (App_effect d)) (fst (App_effect d))"
  by (simp add: App_unmount_def App_events_def App_mount_eq)

lemma App_remount_restores:
  assumes "wf_document d"
  shows "App_cleanup (snd (App_effect d)) (fst (App_effect d)) =
           Inr \<lparr>head_children = head_children d, body_children = body_children d,
                created = Suc (Suc (Suc (Suc (created d))))\<rparr>"
proof -
  from assms have h: "list_all (\<lambda>e. node e < created d) (head_children d)"
    and b: "list_all (\<lambda>e. node e < created d) (body_children d)"
    by (simp_all add: wf_document_def)
  show ?thesis
    by (simp add: App_effect_eq App_cleanup_eq filter_old_nodes [OF h] filter_old_nodes [OF b])
qed

text \<open>
  Claim C8. Whatever handlers ran between mount and unmount (all, some or none of the
  loads may have completed), the cleanup returns without raising and leaves none of the
  four nodes of the effect among the children of \<^verbatim>\<open>head\<close> and \<^verbatim>\<open>body\<close>; for a
  well-formed document, the children of \<^verbatim>\<open>head\<close> and \<^verbatim>\<open>body\<close> are then exactly what
  they were before the mount.
\<close>

theorem App_unmount_detaches:
  "\<exists>d'. App_unmount (App_events evs (App_mount d)) = Inr d'
      \<and> \<not> contains (head_children d') (linkKatex (nodes (App_mount d)))
      \<and> \<not> contains (body_children d') (scriptKatex (nodes (App_mount d)))
      \<and> \<not> contains (body_children d') (scriptMermaid (nodes (App_mount d)))
      \<and> \<not> contains (body_children d') (scriptTailwind (nodes (App_mount d)))
      \<and> (wf_document d \<longrightarrow>
           head_children d' = head_children d \<and> body_children d' = body_children d)"
proof -
  let ?ns = "snd (App_effect d)" and ?d = "fst (App_effect d)"
  obtain d' where run: "App_cleanup ?ns ?d = Inr d'"
    and h: "head_children d' = filter (\<lambda>x. node x \<noteq> node (linkKatex ?ns)) (head_children ?d)"
    and b: "body_children d' =
              filter (\<lambda>x. node x \<noteq> node (scriptTailwind ?ns))
                (filter (\<lambda>x. node x \<noteq> node (scriptMermaid ?ns))
                  (filter (\<lambda>x. node x \<noteq> node (scriptKatex ?ns)) (body_children ?d)))"
    using App_cleanup_eq [of ?ns ?d] by simp
  have ns: "nodes (App_mount d) = ?ns" by (simp add: App_mount_eq)
  have 1: "\<not> contains (head_children d') (linkKatex ?ns)"
    unfolding h by (rule not_contains_filter)
  have 2: "\<not> contains (body_children d') (scriptKatex ?ns)"
    unfolding b by (intro not_contains_filter_more not_contains_filter)
  have 3: "\<not> contains (body_children d') (scriptMermaid ?ns)"
    unfolding b by (intro not_contains_filter_more not_contains_filter)
  have 4: "\<not> contains (body_children d') (scriptTailwind ?ns)"
    unfolding b by (rule not_contains_filter)
  have 5: "wf_document d \<longrightarrow>
           head_children d' = head_children d \<and> body_children d' = body_children d"
  proof
    assume "wf_document d"
    from App_remount_restores [OF this] run
    have "d' = \<lparr>head_children = head_children d,
        body_children = body_children d, created = Suc (Suc (Suc (Suc (created d))))\<rparr>"
      by simp
    then show "head_children d' = head_children d \<and> body_children d' = body_children d"
      by simp
  qed
  have "App_unmount (App_events evs (App_mount d)) = Inr d'"
    by (simp only: App_unmount_eq run)
  with 1 2 3 4 5 show ?thesis
    unfolding ns by blast
qed

theorem App_unmount_detaches_witness:
  "wf_document \<lparr>head_children = [\<lparr>node = 0, tagName = ''title'', rel = [], href = [], src = []\<rparr>],
                body_children = [\<lparr>node = 1, tagName = ''div'', rel = [], href = [], src = []\<rparr>],
                created = 2\<rparr>
   \<and> App_unmount (App_events [scriptKatex_onload]
        (App_mount \<lparr>head_children = [\<lparr>node = 0, tagName = ''title'', rel = [], href = [], src = []\<rparr>],
                    body_children = [\<lparr>node = 1, tagName = ''div'', rel = [], href = [], src = []\<rparr>],
                    created = 2\<rparr>))
     = Inr \<lparr>head_children = [\<lparr>node = 0, tagName = ''title'', rel = [], href = [], src = []\<rparr>],
            body_children = [\<lparr>node = 1, tagName = ''div'', rel = [], href = [], src = []\<rparr>],
            created = 6\<rparr>"
  using App_unmount_detaches
    [of "[scriptKatex_onload]"
        "\<lparr>head_children = [\<lparr>node = 0, tagName = ''title'', rel = [], href = [], src = []\<rparr>],
          body_children = [\<lparr>node = 1, tagName = ''div'', rel = [], href = [], src = []\<rparr>],
          created = 2\<rparr>"]
  by (simp add: wf_document_def App_unmount_eq App_effect_eq App_cleanup_eq)


lemma occurrences_App_effect:
  assumes "url = katex_css \<or> url = katex_js \<or> url = mermaid_js \<or> url = tailwind_js"
  shows "occurrences url (fst (App_effect d)) = Suc (occurrences url d)"
  using assms
  by (elim disjE)
    (simp_all add: App_effect_eq occurrences_def katex_css_def katex_js_def mermaid_js_def
      tailwind_js_def)

lemma occurrences_cong:
  "head_children d' = head_children d \<Longrightarrow> body_children d' = body_children d \<Longrightarrow>
     occurrences url d' = occurrences url d"
  by (simp add: occurrences_def)

text \<open>
  Against claim C7 as stated: all three engines are loaded and the KaTeX script is attached
  once; a second run of the loading effect on that document attaches a second script with
  the same locator.
\<close>

theorem App_effect_reinjects_counterexample:
  "katexLoaded (cells (App_events [scriptKatex_onload, scriptMermaid_onload, scriptTailwind_onload]
      (App_mount \<lparr>head_children = [], body_children = [], created = 0\<rparr>)))
   \<and> occurrences katex_js (doc (App_events [scriptKatex_onload, scriptMermaid_onload, scriptTailwind_onload]
      (App_mount \<lparr>head_children = [], body_children = [], created = 0\<rparr>))) = 1
   \<and> occurrences katex_js (doc (App_mount (doc
        (App_events [scriptKatex_onload, scriptMermaid_onload, scriptTailwind_onload]
          (App_mount \<lparr>head_children = [], body_children = [], created = 0\<rparr>))))) = 2"
  by (simp add: App_events_def App_mount_eq App_run_def App_initial_def
      occurrences_App_effect)
    (simp add: occurrences_def)

text \<open>
  Claim C7, amended. The loading effect has no guard: every run attaches one more element
  for each of the four locators, whatever the document already holds. What keeps a
  re-entered scope free of duplicates is the cleanup of the run before: after mount,
  unmount and a second mount of a well-formed document, each locator occurs exactly once
  more than before the first mount.
\<close>

theorem App_effect_always_injects:
  "(url \<in> {katex_css, katex_js, mermaid_js, tailwind_js} \<longrightarrow>
      occurrences url (fst (App_effect d)) = Suc (occurrences url d))
   \<and> (url \<in> {katex_css, katex_js, mermaid_js, tailwind_js} \<and> wf_document d \<longrightarrow>
      (\<exists>d1. App_unmount (App_events evs (App_mount d)) = Inr d1
         \<and> occurrences url d1 = occurrences url d
         \<and> occurrences url (doc (App_mount d1)) = Suc (occurrences url d)))"
proof (intro conjI impI)
  assume "url \<in> {katex_css, katex_js, mermaid_js, tailwind_js}"
  then show "occurrences url (fst (App_effect d)) = Suc (occurrences url d)"
    by (intro occurrences_App_effect) simp
next
  assume a: "url \<in> {katex_css, katex_js, mermaid_js, tailwind_js} \<and> wf_document d"
  then have url: "url = katex_css \<or> url = katex_js \<or> url = mermaid_js \<or> url = tailwind_js"
    by simp
  let ?d1 = "\<lparr>head_children = head_children d, body_children = body_children d,
              created = Suc (Suc (Suc (Suc (created d))))\<rparr>"
  have run: "App_unmount (App_events evs (App_mount d)) = Inr ?d1"
    using a by (simp only: App_unmount_eq App_remount_restores)
  have same: "occurrences url ?d1 = occurrences url d"
    by (rule occurrences_cong) simp_all
  have "occurrences url (doc (App_mount ?d1)) = Suc (occurrences url ?d1)"
    using occurrences_App_effect [OF url, of ?d1] by (simp add: App_mount_eq)
  with run same show "\<exists>d1. App_unmount (App_events evs (App_mount d)) = Inr d1
         \<and> occurrences url d1 = occurrences url d
         \<and> occurrences url (doc (App_mount d1)) = Suc (occurrences url d)"
    by (intro exI [of _ ?d1]) simp
qed

theorem App_effect_always_injects_witness:
  "wf_document \<lparr>head_children = [], body_children = [], created = 0\<rparr>
   \<and> occurrences mermaid_js \<lparr>head_children = [], body_children = [], created = 0\<rparr> = 0
   \<and> occurrences mermaid_js (fst (App_effect \<lparr>head_children = [], body_children = [], created = 0\<rparr>))
       = Suc (occurrences mermaid_js \<lparr>head_children = [], body_children = [], created = 0\<rparr>)
   \<and> (\<exists>d1. App_unmount (App_events [scriptMermaid_onload]
               (App_mount \<lparr>head_children = [], body_children = [], created = 0\<rparr>)) = Inr d1
         \<and> occurrences mermaid_js (doc (App_mount d1))
             = Suc (occurrences mermaid_js \<lparr>head_children = [], body_children = [], created = 0\<rparr>))"
proof -
  let ?d = "\<lparr>head_children = [], body_children = [], created = 0\<rparr>"
  have wf: "wf_document ?d" by (simp add: wf_document_def)
  have url: "mermaid_js \<in> {katex_css, katex_js, mermaid_js, tailwind_js}" by simp
  have none: "occurrences mermaid_js ?d = 0" by (simp add: occurrences_def)
  from App_effect_always_injects [of mermaid_js ?d "[scriptMermaid_onload]"] wf url none
  show ?thesis by blast
qed

text \<open>
  The cleanup of the earlier copy calls \<^verbatim>\<open>removeChild\<close> without a check; run right after
  its effect on a well-formed document it finds all three nodes and restores the children.
\<close>

lemma App_cleanup_part000_after_effect:
  assumes "wf_document d"
  shows "App_cleanup_part000 (snd (App_effect_part000 d)) (fst (App_effect_part000 d)) =
           Inr \<lparr>head_children = head_children d, body_children = body_children d,
                created = Suc (Suc (Suc (created d)))\<rparr>"
proof -
  from assms have h: "list_all (\<lambda>e. node e < created d) (head_children d)"
    and b: "list_all (\<lambda>e. node e < created d) (body_children d)"
    by (simp_all add: wf_document_def)
  show ?thesis
    by (simp add: App_effect_part000_def App_cleanup_part000_def createElement_def appendChild_def
        removeChild_def contains_def Let_def filter_old_nodes [OF h] filter_old_nodes [OF b])
qed

end
